theory Spec2Isabelle
  imports Complex_Main "HOL-Library.Word" "HOL-Library.Sublist" "HOL-Library.AList"
begin

section \<open>JavaScript strings\<close>

text \<open>
  A JavaScript string is a sequence of 16-bit code units, and \<^verbatim>\<open>.length\<close> counts
  them. String literals of the source are written \<open>js ''...''\<close>.
\<close>

type_synonym code_unit = "16 word"
type_synonym jsstring = "code_unit list"

definition js :: "string \<Rightarrow> jsstring" where
  "js s = map (\<lambda>c. of_nat (of_char c)) s"

text \<open>
  \<^verbatim>\<open>String.prototype.trim\<close> removes the WhiteSpace and LineTerminator code units
  of ECMA-262 from both ends: TAB, LF, VT, FF, CR, SP, NBSP, the Unicode space
  separators (category Zs), LS, PS and the byte order mark.
\<close>

definition is_space :: "code_unit \<Rightarrow> bool" where
  "is_space c \<longleftrightarrow>
     c \<in> {0x09, 0x0A, 0x0B, 0x0C, 0x0D, 0x20, 0xA0, 0x1680, 0x2028, 0x2029,
          0x202F, 0x205F, 0x3000, 0xFEFF}
     \<or> (0x2000 \<le> c \<and> c \<le> 0x200A)"

definition trim :: "jsstring \<Rightarrow> jsstring" where
  "trim s = rev (dropWhile is_space (rev (dropWhile is_space s)))"

section \<open>The response parser: fence stripping\<close>

text \<open>
  \<^verbatim>\<open>response.replace(/```json\n?|\n?```/g, '')\<close>: the global replace scans the
  text from the left. At each position it tries the first alternative (the tagged
  fence, then a line feed if one follows), then the second (a line feed and the bare
  fence, or the bare fence alone); a match is removed and the scan goes on behind it,
  otherwise the code unit is kept.
\<close>

function strip_fences :: "jsstring \<Rightarrow> jsstring" where
  "strip_fences s =
     (if s = [] then []
      else if prefix (js ''```json'') s then
        (let r = drop 7 s in strip_fences (if prefix (js ''\<newline>'') r then drop 1 r else r))
      else if prefix (js ''\<newline>```'') s then strip_fences (drop 4 s)
      else if prefix (js ''```'') s then strip_fences (drop 3 s)
      else hd s # strip_fences (tl s))"
  by pat_completeness auto
termination
  by (relation "measure length") (auto simp: Let_def)

text \<open>\<^verbatim>\<open>const cleanResponse = response.replace(...).trim()\<close>\<close>

definition cleanResponse :: "jsstring \<Rightarrow> jsstring" where
  "cleanResponse response = trim (strip_fences response)"




section \<open>JSON values and the operations JavaScript applies to them\<close>

text \<open>
  What \<^verbatim>\<open>JSON.parse\<close> returns: \<open>null\<close>, a boolean, a number, a string, an array
  or an object. An object is the list of its own properties in order, with distinct
  keys. A number is kept as the rational it denotes.
\<close>

datatype json =
    JNull
  | JBool bool
  | JNum rat
  | JStr jsstring
  | JArr "json list"
  | JObj "(jsstring \<times> json) list"

type_synonym obj = "(jsstring \<times> json) list"

text \<open>Decimal digits of a number, as a template literal prints an index.\<close>

fun decimal :: "nat \<Rightarrow> jsstring" where
  "decimal n =
     (if n < 10 then [0x30 + of_nat n]
      else decimal (n div 10) @ [0x30 + of_nat (n mod 10)])"

text \<open>
  \<^verbatim>\<open>value.name\<close> for a property name that no prototype defines (the four names
  the normalizer reads are such): the own property of an object, \<open>undefined\<close>
  (\<open>None\<close>) otherwise. Reading a property of \<open>null\<close> throws; the normalizer
  meets that case before it reads a field.
\<close>

fun field :: "json \<Rightarrow> jsstring \<Rightarrow> json option" where
  "field (JObj kvs) name = map_of kvs name"
| "field _ name = None"

text \<open>Truthiness, as \<^verbatim>\<open>||\<close> tests it.\<close>

fun truthy :: "json \<Rightarrow> bool" where
  "truthy JNull = False"
| "truthy (JBool b) = b"
| "truthy (JNum n) = (n \<noteq> 0)"
| "truthy (JStr s) = (s \<noteq> [])"
| "truthy (JArr xs) = True"
| "truthy (JObj kvs) = True"

text \<open>
  \<^verbatim>\<open>{...risk}\<close>: the own enumerable properties of the value. An object gives its
  properties, an array and a string their indexed elements, every other value none.
\<close>

fun spread :: "json \<Rightarrow> obj" where
  "spread (JObj kvs) = kvs"
| "spread (JArr xs) = map (\<lambda>(i, x). (decimal i, x)) (enumerate 0 xs)"
| "spread (JStr s) = map (\<lambda>(i, c). (decimal i, JStr [c])) (enumerate 0 s)"
| "spread _ = []"

section \<open>Exceptions\<close>

text \<open>
  The \<^verbatim>\<open>TypeError\<close>s the engine raises in the normalizer, by what was attempted;
  the message text is the engine's.
\<close>

datatype fault =
    Read_of_null jsstring
  | Read_of_undefined jsstring
  | Not_a_function jsstring

text \<open>
  A thrown value: an \<^verbatim>\<open>Error\<close> with its message, the \<^verbatim>\<open>SyntaxError\<close> of
  \<^verbatim>\<open>JSON.parse\<close>, a \<^verbatim>\<open>TypeError\<close> of the engine, or a value that is no
  \<^verbatim>\<open>Error\<close> at all (only a collaborator can throw one).
\<close>

datatype exn =
    Error jsstring
  | SyntaxError jsstring
  | TypeError fault
  | Thrown

fun instanceof_Error :: "exn \<Rightarrow> bool" where
  "instanceof_Error Thrown = False"
| "instanceof_Error _ = True"

section \<open>The outside world\<close>

record File =
  file_type :: jsstring
  file_name :: jsstring
  file_bytes :: "8 word list"

text \<open>\<^verbatim>\<open>new Groq({ apiKey, dangerouslyAllowBrowser: true })\<close>\<close>

record Groq =
  apiKey :: jsstring
  dangerouslyAllowBrowser :: bool

text \<open>The argument of \<^verbatim>\<open>groq.chat.completions.create\<close>, with the client it is sent through.\<close>

record request =
  client :: Groq
  messages :: "(jsstring \<times> jsstring) list"
  model :: jsstring
  temperature :: rat
  max_tokens :: nat

text \<open>
  A completion: its choices, each with what \<^verbatim>\<open>?.message?.content\<close> reads from it
  (\<open>None\<close> for a missing message, a missing content or \<open>null\<close>).
\<close>

type_synonym completion = "jsstring option list"

text \<open>
  What the code cannot decide: the build's environment variable, the completion
  endpoint, the engine's \<^verbatim>\<open>JSON.parse\<close> (\<open>Inl\<close> is the message of its
  \<^verbatim>\<open>SyntaxError\<close>) and the text of its \<^verbatim>\<open>TypeError\<close>s, the DOCX library (the
  dynamic import, \<^verbatim>\<open>file.arrayBuffer()\<close> and \<^verbatim>\<open>mammoth.extractRawText\<close>
  together), the \<^verbatim>\<open>FileReader\<close> (\<open>None\<close> when it fires \<^verbatim>\<open>onerror\<close>) and the
  clock.
\<close>

record env =
  VITE_GROQ_API_KEY :: "jsstring option"
  completions_create :: "request \<Rightarrow> exn + completion"
  JSON_parse :: "jsstring \<Rightarrow> jsstring + json"
  TypeError_message :: "fault \<Rightarrow> jsstring"
  mammoth_extractRawText :: "File \<Rightarrow> exn + jsstring"
  FileReader_readAsText :: "File \<Rightarrow> jsstring option"
  Date_now :: nat

text \<open>\<^verbatim>\<open>error.message\<close>\<close>

fun message :: "env \<Rightarrow> exn \<Rightarrow> jsstring" where
  "message env (Error m) = m"
| "message env (SyntaxError m) = m"
| "message env (TypeError f) = TypeError_message env f"
| "message env Thrown = []"

text \<open>
  The effects a run leaves behind, in order: a file handed to the \<^verbatim>\<open>FileReader\<close>
  or to the DOCX library, a request sent to the completion endpoint, a line of
  \<^verbatim>\<open>console.error\<close>.
\<close>

datatype event =
    ReadAsText File
  | ExtractRawText File
  | CreateCompletion request
  | ConsoleError jsstring exn

fun network_calls :: "event list \<Rightarrow> request list" where
  "network_calls [] = []"
| "network_calls (CreateCompletion r # es) = r # network_calls es"
| "network_calls (_ # es) = network_calls es"

section \<open>contractAnalyzer: the extractor\<close>

definition extractTextFromFile :: "env \<Rightarrow> File \<Rightarrow> event list \<Rightarrow> (exn + jsstring) \<times> event list" where
  "extractTextFromFile env file tr =
     (if file_type file = js ''application/pdf'' then
        (Inl (Error (js ''PDF files are not yet supported. Please convert your contract to a DOCX file or copy/paste the text into a new Word document and upload that instead.'')), tr)
      else if file_type file = js ''application/vnd.openxmlformats-officedocument.wordprocessingml.document'' then
        (case mammoth_extractRawText env file of
           Inr v \<Rightarrow> (Inr v, tr @ [ExtractRawText file])
         | Inl error \<Rightarrow>
             (Inl (Error (js ''Error reading DOCX file. Please ensure the file is not corrupted.'')),
              tr @ [ExtractRawText file]))
      else if file_type file = js ''text/plain'' then
        (case FileReader_readAsText env file of
           Some result \<Rightarrow> (Inr result, tr @ [ReadAsText file])
         | None \<Rightarrow> (Inl (Error (js ''Error reading text file'')), tr @ [ReadAsText file]))
      else
        (Inl (Error (js ''Unsupported file type. Please upload a DOCX or TXT file.'')), tr))"

section \<open>contractAnalyzer: the analysis client and the normalizer\<close>

definition getGroqClient :: "env \<Rightarrow> exn + Groq" where
  "getGroqClient env =
     (case VITE_GROQ_API_KEY env of
        None \<Rightarrow> Inl (Error (js ''Groq API key not found. Please add VITE_GROQ_API_KEY to your .env file.''))
      | Some key \<Rightarrow>
          if key = [] then
            Inl (Error (js ''Groq API key not found. Please add VITE_GROQ_API_KEY to your .env file.''))
          else Inr \<lparr>apiKey = key, dangerouslyAllowBrowser = True\<rparr>)"

text \<open>The prompt: the template literal around \<^verbatim>\<open>${contractText}\<close>.\<close>

definition prompt_head :: jsstring where
  "prompt_head = js (
     ''\<newline>'' @
     ''You are a legal expert analyzing a contract for potential risks. Analyze the following contract text and identify problematic clauses.\<newline>'' @
     ''\<newline>'' @
     ''Contract Text:\<newline>'')"

definition prompt_tail :: jsstring where
  "prompt_tail = js (
     ''\<newline>'' @
     ''\<newline>'' @
     ''Please analyze this contract and identify risks in the following categories:\<newline>'' @
     ''1. Payment Terms (vague timelines, unclear amounts, no late fees)\<newline>'' @
     ''2. Intellectual Property (unclear ownership, missing IP clauses)\<newline>'' @
     ''3. Scope of Work (unlimited revisions, vague deliverables)\<newline>'' @
     ''4. Termination (no notice period, unfair termination clauses)\<newline>'' @
     ''5. Liability (unlimited liability, missing limitation clauses)\<newline>'' @
     ''6. Non-compete (overly broad restrictions)\<newline>'' @
     ''7. Confidentiality (missing or weak NDAs)\<newline>'' @
     ''\<newline>'' @
     ''For each risk found, provide:\<newline>'' @
     ''- Risk level (high/medium/low)\<newline>'' @
     ''- Category\<newline>'' @
     ''- Brief description\<newline>'' @
     ''- Plain English explanation of why it's problematic\<newline>'' @
     ''- Specific suggestion for improvement\<newline>'' @
     ''- Location in contract (section/clause reference if available)\<newline>'' @
     ''- Original problematic clause text (exact quote from contract)\<newline>'' @
     ''- Suggested replacement clause text\<newline>'' @
     ''\<newline>'' @
     ''Also provide:\<newline>'' @
     ''- Overall risk score (0-100, where 100 is safest)\<newline>'' @
     ''- Total number of clauses analyzed\<newline>'' @
     ''- For the top 3-5 most important risks, provide revised sections showing original vs improved text\<newline>'' @
     ''\<newline>'' @
     ''Format your response as a JSON object with this structure:\<newline>'' @
     ''{\<newline>'' @
     ''  \"risks\": [\<newline>'' @
     ''    {\<newline>'' @
     ''      \"type\": \"high|medium|low\",\<newline>'' @
     ''      \"category\": \"category name\",\<newline>'' @
     ''      \"description\": \"brief description\",\<newline>'' @
     ''      \"explanation\": \"why this is problematic\",\<newline>'' @
     ''      \"suggestion\": \"specific improvement suggestion\",\<newline>'' @
     ''      \"location\": \"section reference\"\<newline>'' @
     ''      \"originalClause\": \"exact text from contract\",\<newline>'' @
     ''      \"suggestedClause\": \"improved replacement text\"\<newline>'' @
     ''    }\<newline>'' @
     ''  ],\<newline>'' @
     ''  \"overallScore\": number,\<newline>'' @
     ''  \"totalClauses\": number,\<newline>'' @
     ''  \"revisedSections\": [\<newline>'' @
     ''    {\<newline>'' @
     ''      \"section\": \"section name/number\",\<newline>'' @
     ''      \"original\": \"original problematic text\",\<newline>'' @
     ''      \"revised\": \"improved text with changes highlighted\"\<newline>'' @
     ''    }\<newline>'' @
     ''  ]\<newline>'' @
     ''}\<newline>'' @
     ''\<newline>'' @
     ''Only return the JSON object, no other text.\<newline>'')"

definition prompt :: "jsstring \<Rightarrow> jsstring" where
  "prompt contractText = prompt_head @ contractText @ prompt_tail"

definition completion_request :: "Groq \<Rightarrow> jsstring \<Rightarrow> request" where
  "completion_request groq contractText =
     \<lparr>client = groq,
      messages = [(js ''user'', prompt contractText)],
      model = js ''llama-3.3-70b-versatile'',
      temperature = 1 / 10,
      max_tokens = 4000\<rparr>"

text \<open>\<^verbatim>\<open>completion.choices[0]?.message?.content\<close>\<close>

fun first_content :: "completion \<Rightarrow> jsstring option" where
  "first_content [] = None"
| "first_content (c # cs) = c"

text \<open>
  \<^verbatim>\<open>analysisData.risks.map((risk, index) => ({ ...risk, id: `risk-${index + 1}` }))\<close>.
  The property reads throw on \<open>null\<close> and \<open>undefined\<close>, and only an array has
  \<^verbatim>\<open>map\<close>. Writing \<open>id\<close> replaces an \<open>id\<close> the entry has, in place, and is
  appended otherwise.
\<close>

definition with_id :: "nat \<Rightarrow> json \<Rightarrow> obj" where
  "with_id index risk =
     AList.update (js ''id'') (JStr (js ''risk-'' @ decimal (index + 1))) (spread risk)"

definition risksWithIds :: "json \<Rightarrow> fault + obj list" where
  "risksWithIds analysisData =
     (if analysisData = JNull then Inl (Read_of_null (js ''risks''))
      else case field analysisData (js ''risks'') of
        None \<Rightarrow> Inl (Read_of_undefined (js ''map''))
      | Some JNull \<Rightarrow> Inl (Read_of_null (js ''map''))
      | Some (JArr entries) \<Rightarrow> Inr (map (\<lambda>(index, risk). with_id index risk) (enumerate 0 entries))
      | Some _ \<Rightarrow> Inl (Not_a_function (js ''analysisData.risks.map'')))"

record AnalysisResult =
  risks :: "obj list"
  overallScore :: "json option"
  totalClauses :: "json option"
  originalText :: jsstring
  revisedSections :: json

text \<open>\<^verbatim>\<open>analysisData.revisedSections || []\<close>\<close>

definition revisedSections_or_empty :: "json \<Rightarrow> json" where
  "revisedSections_or_empty analysisData =
     (case field analysisData (js ''revisedSections'') of
        Some v \<Rightarrow> if truthy v then v else JArr []
      | None \<Rightarrow> JArr [])"

text \<open>Lines 146 to 162: from the response text to the result, or to what is thrown.\<close>

definition parse_response :: "env \<Rightarrow> jsstring \<Rightarrow> jsstring \<Rightarrow> exn + AnalysisResult" where
  "parse_response env contractText response =
     (case JSON_parse env (cleanResponse response) of
        Inl syntax_error \<Rightarrow> Inl (SyntaxError syntax_error)
      | Inr analysisData \<Rightarrow>
          (case risksWithIds analysisData of
             Inl type_error \<Rightarrow> Inl (TypeError type_error)
           | Inr risksWithIds' \<Rightarrow>
               Inr \<lparr>risks = risksWithIds',
                    overallScore = field analysisData (js ''overallScore''),
                    totalClauses = field analysisData (js ''totalClauses''),
                    originalText = contractText,
                    revisedSections = revisedSections_or_empty analysisData\<rparr>))"

text \<open>
  Lines 127 to 144: the client is made, the request is sent and the content of the
  first choice is read; an empty or missing content is thrown as an error.
\<close>

definition analysis_client ::
  "env \<Rightarrow> jsstring \<Rightarrow> event list \<Rightarrow> (exn + jsstring) \<times> event list" where
  "analysis_client env contractText tr =
     (case getGroqClient env of
        Inl error \<Rightarrow> (Inl error, tr)
      | Inr groq \<Rightarrow>
          (let req = completion_request groq contractText;
               tr' = tr @ [CreateCompletion req]
           in case completions_create env req of
                Inl error \<Rightarrow> (Inl error, tr')
              | Inr completion \<Rightarrow>
                  (case first_content completion of
                     None \<Rightarrow> (Inl (Error (js ''No response from AI analysis'')), tr')
                   | Some response \<Rightarrow>
                       if response = [] then (Inl (Error (js ''No response from AI analysis'')), tr')
                       else (Inr response, tr'))))"

text \<open>The body of the \<^verbatim>\<open>try\<close> block of \<^verbatim>\<open>analyzeContract\<close>.\<close>

definition analyzeContract_try ::
  "env \<Rightarrow> jsstring \<Rightarrow> event list \<Rightarrow> (exn + AnalysisResult) \<times> event list" where
  "analyzeContract_try env contractText tr =
     (case analysis_client env contractText tr of
        (Inl error, tr') \<Rightarrow> (Inl error, tr')
      | (Inr response, tr') \<Rightarrow> (parse_response env contractText response, tr'))"

text \<open>
  \<^verbatim>\<open>analyzeContract\<close>: the \<^verbatim>\<open>catch\<close> block logs what was thrown and throws it
  again when it is an \<^verbatim>\<open>Error\<close>, a new \<^verbatim>\<open>Error\<close> otherwise.
\<close>

definition analyzeContract ::
  "env \<Rightarrow> jsstring \<Rightarrow> event list \<Rightarrow> (exn + AnalysisResult) \<times> event list" where
  "analyzeContract env contractText tr =
     (case analyzeContract_try env contractText tr of
        (Inr result, tr') \<Rightarrow> (Inr result, tr')
      | (Inl error, tr') \<Rightarrow>
          (Inl (if instanceof_Error error then error
                else Error (js ''An unexpected error occurred during analysis'')),
           tr' @ [ConsoleError (js ''Error analyzing contract:'') error]))"

section \<open>App: the upload handler\<close>

datatype view = Landing | Upload | Analysis | Compare | Pricing | Success

text \<open>The state variables of \<^verbatim>\<open>App\<close> that \<^verbatim>\<open>handleFileUpload\<close> sets.\<close>

record app_state =
  currentView :: view
  uploadedFile :: "File option"
  analysisResult :: "AnalysisResult option"
  isAnalyzing :: bool
  analysisError :: "jsstring option"
  originalContractText :: jsstring
  uploadedFileName :: jsstring
  uploadedAt :: nat

text \<open>The \<^verbatim>\<open>catch\<close> and \<^verbatim>\<open>finally\<close> blocks of \<^verbatim>\<open>handleFileUpload\<close>.\<close>

definition upload_failed :: "env \<Rightarrow> exn \<Rightarrow> app_state \<Rightarrow> event list \<Rightarrow> app_state \<times> event list" where
  "upload_failed env error st tr =
     (st\<lparr>analysisError :=
           Some (if instanceof_Error error then message env error
                 else js ''An error occurred during analysis''),
         analysisResult := None,
         isAnalyzing := False\<rparr>,
      tr @ [ConsoleError (js ''Analysis error:'') error])"

text \<open>The six setters before the \<^verbatim>\<open>try\<close> block.\<close>

definition upload_started :: "env \<Rightarrow> File \<Rightarrow> app_state \<Rightarrow> app_state" where
  "upload_started env file st =
     st\<lparr>uploadedFile := Some file,
        uploadedFileName := file_name file,
        uploadedAt := Date_now env,
        currentView := Analysis,
        isAnalyzing := True,
        analysisError := None\<rparr>"

definition handleFileUpload :: "env \<Rightarrow> File \<Rightarrow> app_state \<Rightarrow> event list \<Rightarrow> app_state \<times> event list" where
  "handleFileUpload env file st tr =
     (case extractTextFromFile env file tr of
        (Inl error, tr1) \<Rightarrow> upload_failed env error (upload_started env file st) tr1
      | (Inr contractText, tr1) \<Rightarrow>
          (let st2 = (upload_started env file st)\<lparr>originalContractText := contractText\<rparr>
           in if contractText = [] \<or> length (trim contractText) < 100 then
                upload_failed env
                  (Error (js ''Unable to extract sufficient text from the file. Please ensure the file contains readable contract text.''))
                  st2 tr1
              else case analyzeContract env contractText tr1 of
                     (Inl error, tr2) \<Rightarrow> upload_failed env error st2 tr2
                   | (Inr result, tr2) \<Rightarrow>
                       (st2\<lparr>analysisResult := Some result, isAnalyzing := False\<rparr>, tr2)))"

section \<open>The JSON grammar\<close>

text \<open>
  The texts \<^verbatim>\<open>JSON.parse\<close> accepts (ECMA-404) and the values it gives them, for
  stating that a text is JSON and for running the pipeline on concrete responses.
  The text is cut into tokens, and a stack of the arrays and objects still open reads
  the tokens one by one. A number keeps its exact decimal value (the rounding to
  binary64 is left out), and a key written twice keeps its first place and its last
  value.
\<close>

datatype token =
    LeftBrace | RightBrace | LeftBracket | RightBracket | Colon | Comma
  | Scalar json

definition is_digit :: "code_unit \<Rightarrow> bool" where
  "is_digit c \<longleftrightarrow> 0x30 \<le> c \<and> c \<le> 0x39"

definition is_lower :: "code_unit \<Rightarrow> bool" where
  "is_lower c \<longleftrightarrow> 0x61 \<le> c \<and> c \<le> 0x7A"

definition digits_value :: "jsstring \<Rightarrow> nat" where
  "digits_value ds = foldl (\<lambda>n d. 10 * n + unat (d - 0x30)) 0 ds"

text \<open>
  A number: an optional minus, an integer part without a leading zero, an optional
  fraction, an optional exponent.
\<close>

definition exponent_value :: "jsstring \<Rightarrow> int option" where
  "exponent_value s =
     (if s = [] then Some 0
      else if hd s = 0x65 \<or> hd s = 0x45 then
        (let negative = prefix [0x2D] (tl s);
             ds = (if prefix [0x2D] (tl s) \<or> prefix [0x2B] (tl s) then drop 2 s else tl s)
         in if ds = [] \<or> \<not> list_all is_digit ds then None
            else Some (if negative then - int (digits_value ds) else int (digits_value ds)))
      else None)"

definition number_value :: "jsstring \<Rightarrow> rat option" where
  "number_value s =
     (let negative = prefix [0x2D] s;
          s1 = (if negative then tl s else s);
          ip = takeWhile is_digit s1;
          s2 = dropWhile is_digit s1;
          fraction = prefix [0x2E] s2;
          fp = (if fraction then takeWhile is_digit (tl s2) else []);
          s3 = (if fraction then dropWhile is_digit (tl s2) else s2)
      in if ip = [] \<or> (1 < length ip \<and> hd ip = 0x30) \<or> (fraction \<and> fp = []) then None
         else case exponent_value s3 of
           None \<Rightarrow> None
         | Some e \<Rightarrow>
             (let m = of_nat (digits_value (ip @ fp)) * (if negative then - 1 else 1);
                  k = e - int (length fp)
              in Some (if 0 \<le> k then m * 10 ^ nat k else m / 10 ^ nat (- k))))"

definition number_char :: "code_unit \<Rightarrow> bool" where
  "number_char c \<longleftrightarrow> is_digit c \<or> c \<in> {0x2B, 0x2D, 0x2E, 0x45, 0x65}"

text \<open>A string: where its closing quote stands, and what its escapes denote.\<close>

fun string_end :: "jsstring \<Rightarrow> nat option" where
  "string_end [] = None"
| "string_end [c] = (if c = 0x22 then Some 0 else None)"
| "string_end (c # d # cs) =
     (if c = 0x22 then Some 0
      else if c = 0x5C then map_option (\<lambda>n. n + 2) (string_end cs)
      else map_option Suc (string_end (d # cs)))"

definition hex_digit :: "code_unit \<Rightarrow> code_unit option" where
  "hex_digit c =
     (if is_digit c then Some (c - 0x30)
      else if 0x41 \<le> c \<and> c \<le> 0x46 then Some (c - 0x41 + 10)
      else if 0x61 \<le> c \<and> c \<le> 0x66 then Some (c - 0x61 + 10)
      else None)"

definition hex4 :: "jsstring \<Rightarrow> code_unit option" where
  "hex4 ds =
     (case map hex_digit ds of
        [Some a, Some b, Some c, Some d] \<Rightarrow> Some (((a * 16 + b) * 16 + c) * 16 + d)
      | _ \<Rightarrow> None)"

definition simple_escape :: "code_unit \<Rightarrow> code_unit option" where
  "simple_escape e =
     (if e = 0x22 \<or> e = 0x5C \<or> e = 0x2F then Some e
      else if e = 0x62 then Some 0x08
      else if e = 0x66 then Some 0x0C
      else if e = 0x6E then Some 0x0A
      else if e = 0x72 then Some 0x0D
      else if e = 0x74 then Some 0x09
      else None)"

function unescape :: "jsstring \<Rightarrow> jsstring option" where
  "unescape s =
     (case s of
        [] \<Rightarrow> Some []
      | c # cs \<Rightarrow>
          if c = 0x5C then
            (case cs of
               [] \<Rightarrow> None
             | e # es \<Rightarrow>
                 if e = 0x75 then
                   (case hex4 (take 4 es) of
                      None \<Rightarrow> None
                    | Some u \<Rightarrow> map_option ((#) u) (unescape (drop 4 es)))
                 else
                   (case simple_escape e of
                      None \<Rightarrow> None
                    | Some u \<Rightarrow> map_option ((#) u) (unescape es)))
          else if c < 0x20 then None
          else map_option ((#) c) (unescape cs))"
  by pat_completeness auto
termination
  by (relation "measure length") auto

definition literal_value :: "jsstring \<Rightarrow> json option" where
  "literal_value w =
     (if w = js ''true'' then Some (JBool True)
      else if w = js ''false'' then Some (JBool False)
      else if w = js ''null'' then Some JNull
      else None)"

definition json_space :: "code_unit \<Rightarrow> bool" where
  "json_space c \<longleftrightarrow> c = 0x20 \<or> c = 0x09 \<or> c = 0x0A \<or> c = 0x0D"

definition punctuation :: "code_unit \<Rightarrow> token option" where
  "punctuation c =
     (if c = 0x7B then Some LeftBrace
      else if c = 0x7D then Some RightBrace
      else if c = 0x5B then Some LeftBracket
      else if c = 0x5D then Some RightBracket
      else if c = 0x3A then Some Colon
      else if c = 0x2C then Some Comma
      else None)"

function tokenize :: "jsstring \<Rightarrow> token list option" where
  "tokenize s =
     (case s of
        [] \<Rightarrow> Some []
      | c # cs \<Rightarrow>
          if json_space c then tokenize cs
          else case punctuation c of
            Some t \<Rightarrow> map_option ((#) t) (tokenize cs)
          | None \<Rightarrow>
              if c = 0x22 then
                (case string_end cs of
                   None \<Rightarrow> None
                 | Some n \<Rightarrow>
                     (case unescape (take n cs) of
                        None \<Rightarrow> None
                      | Some str \<Rightarrow>
                          map_option ((#) (Scalar (JStr str))) (tokenize (drop (Suc n) cs))))
              else if c = 0x2D \<or> is_digit c then
                (case number_value (c # takeWhile number_char cs) of
                   None \<Rightarrow> None
                 | Some q \<Rightarrow>
                     map_option ((#) (Scalar (JNum q))) (tokenize (dropWhile number_char cs)))
              else if is_lower c then
                (case literal_value (c # takeWhile is_lower cs) of
                   None \<Rightarrow> None
                 | Some v \<Rightarrow> map_option ((#) (Scalar v)) (tokenize (dropWhile is_lower cs)))
              else None)"
  by pat_completeness auto
termination
  by (relation "measure length") (auto simp: length_dropWhile_le less_Suc_eq_le)

text \<open>
  The arrays and objects still open, innermost first: the elements read so far, or
  the members read so far and the key whose value is awaited.
\<close>

datatype frame =
    In_array "json list"
  | In_object obj "jsstring option"

datatype expect =
    Value | Value_or_close | Key_or_close | Key | Colon_after_key | Comma_or_close
  | End_of_text json

fun complete :: "json \<Rightarrow> frame list \<Rightarrow> (expect \<times> frame list) option" where
  "complete v [] = Some (End_of_text v, [])"
| "complete v (In_array es # st) = Some (Comma_or_close, In_array (es @ [v]) # st)"
| "complete v (In_object ms (Some k) # st) =
     Some (Comma_or_close, In_object (AList.update k v ms) None # st)"
| "complete v (In_object ms None # st) = None"

fun begin_value :: "frame list \<Rightarrow> token \<Rightarrow> (expect \<times> frame list) option" where
  "begin_value st (Scalar v) = complete v st"
| "begin_value st LeftBracket = Some (Value_or_close, In_array [] # st)"
| "begin_value st LeftBrace = Some (Key_or_close, In_object [] None # st)"
| "begin_value st _ = None"

fun read_key :: "frame list \<Rightarrow> token \<Rightarrow> (expect \<times> frame list) option" where
  "read_key (In_object ms None # st) (Scalar (JStr k)) =
     Some (Colon_after_key, In_object ms (Some k) # st)"
| "read_key _ _ = None"

fun close :: "frame list \<Rightarrow> token \<Rightarrow> (expect \<times> frame list) option" where
  "close (In_array es # st) RightBracket = complete (JArr es) st"
| "close (In_object ms None # st) RightBrace = complete (JObj ms) st"
| "close _ _ = None"

fun separate :: "frame list \<Rightarrow> (expect \<times> frame list) option" where
  "separate (In_array es # st) = Some (Value, In_array es # st)"
| "separate (In_object ms None # st) = Some (Key, In_object ms None # st)"
| "separate _ = None"

fun step :: "expect \<Rightarrow> frame list \<Rightarrow> token \<Rightarrow> (expect \<times> frame list) option" where
  "step Value st t = begin_value st t"
| "step Value_or_close st t = (if t = RightBracket then close st t else begin_value st t)"
| "step Key_or_close st t = (if t = RightBrace then close st t else read_key st t)"
| "step Key st t = read_key st t"
| "step Colon_after_key st t = (if t = Colon then Some (Value, st) else None)"
| "step Comma_or_close st t = (if t = Comma then separate st else close st t)"
| "step (End_of_text v) st t = None"

fun run :: "expect \<Rightarrow> frame list \<Rightarrow> token list \<Rightarrow> json option" where
  "run (End_of_text v) st [] = Some v"
| "run e st [] = None"
| "run e st (t # ts) = (case step e st t of None \<Rightarrow> None | Some (e', st') \<Rightarrow> run e' st' ts)"

definition json_parse :: "jsstring \<Rightarrow> json option" where
  "json_parse s = (case tokenize s of None \<Rightarrow> None | Some ts \<Rightarrow> run Value [] ts)"

section \<open>A mock environment\<close>

text \<open>
  The environment of the spec's end-to-end scenario: a key is configured, the
  completion endpoint answers every request with one canned text, \<^verbatim>\<open>JSON.parse\<close>
  follows the JSON grammar, the \<^verbatim>\<open>FileReader\<close> reads the bytes as ASCII and the
  DOCX library finds every file corrupted.
\<close>

definition mock_env :: "jsstring \<Rightarrow> env" where
  "mock_env canned =
     \<lparr>VITE_GROQ_API_KEY = Some (js ''gsk_test_key''),
      completions_create = (\<lambda>req. Inr [Some canned]),
      JSON_parse = (\<lambda>s. case json_parse s of
                          None \<Rightarrow> Inl (js ''Unexpected token in JSON'')
                        | Some v \<Rightarrow> Inr v),
      TypeError_message = (\<lambda>f. js ''TypeError''),
      mammoth_extractRawText = (\<lambda>file. Inl (Error (js ''Corrupted zip''))),
      FileReader_readAsText = (\<lambda>file. Some (map ucast (file_bytes file))),
      Date_now = 0\<rparr>"

definition mock_request :: "jsstring \<Rightarrow> request" where
  "mock_request contractText =
     completion_request \<lparr>apiKey = js ''gsk_test_key'', dangerouslyAllowBrowser = True\<rparr> contractText"

definition mock_file :: "string \<Rightarrow> string \<Rightarrow> File" where
  "mock_file mime content =
     \<lparr>file_type = js mime,
      file_name = js ''contract'',
      file_bytes = map (\<lambda>c. of_nat (of_char c)) content\<rparr>"

text \<open>The state of \<^verbatim>\<open>App\<close> when it is mounted (the arguments of its \<^verbatim>\<open>useState\<close> calls).\<close>

definition initial_state :: app_state where
  "initial_state =
     \<lparr>currentView = Landing,
      uploadedFile = None,
      analysisResult = None,
      isAnalyzing = False,
      analysisError = None,
      originalContractText = [],
      uploadedFileName = [],
      uploadedAt = 0\<rparr>"

text \<open>The contract text of the scenario, 131 code units long.\<close>

definition mock_contract :: string where
  "mock_contract =
     ''Payment due within 30 days of invoice with no late fee specified.'' @
     '' Payment due within 30 days of invoice with no late fee specified.''"

section \<open>Fence stripping: what a match can reach\<close>

declare strip_fences.simps [simp del]
declare unescape.simps [simp del]
declare tokenize.simps [simp del]




















section \<open>Where a JSON text begins and ends\<close>















section \<open>The round trip through a fenced block\<close>






text \<open>
  Both sides of the round trip are the response parser. It removes a fence wherever
  one stands, also inside a string of the payload, so its value for a JSON text is
  not always the value of \<^verbatim>\<open>JSON.parse\<close> for that text.
\<close>

lemma fence_inside_string_is_removed:
  "json_parse (js ''\"use ```json blocks\"'') = Some (JStr (js ''use ```json blocks''))
   \<and> JSON_parse (mock_env []) (cleanResponse (js ''\"use ```json blocks\"''))
     = Inr (JStr (js ''use  blocks''))"
  by code_simp

section \<open>The pipeline, stage by stage\<close>

lemma js_Nil_iff: "js s = [] \<longleftrightarrow> s = []"
  by (simp add: js_def)

lemma network_calls_append: "network_calls (a @ b) = network_calls a @ network_calls b"
  by (induction a rule: network_calls.induct) simp_all

lemma extractTextFromFile_network:
  "network_calls (snd (extractTextFromFile env file tr)) = network_calls tr"
  by (simp add: extractTextFromFile_def network_calls_append split: sum.split option.split)

lemma length_trim_le: "length (trim s) \<le> length s"
proof -
  have "length (trim s) \<le> length (rev (dropWhile is_space s))"
    unfolding trim_def length_rev [of "dropWhile is_space (rev (dropWhile is_space s))"]
    by (rule length_dropWhile_le)
  also have "\<dots> \<le> length s"
    by (simp add: length_dropWhile_le)
  finally show ?thesis .
qed

lemma parse_response_instanceof:
  "parse_response env contractText response = Inl error \<Longrightarrow> instanceof_Error error"
  by (auto simp: parse_response_def split: sum.splits)

lemma analyzeContract_answered:
  assumes "analysis_client env contractText tr = (Inr response, tr')"
  shows "analyzeContract env contractText tr =
     (case parse_response env contractText response of
        Inr result \<Rightarrow> (Inr result, tr')
      | Inl error \<Rightarrow> (Inl error, tr' @ [ConsoleError (js ''Error analyzing contract:'') error]))"
  using assms parse_response_instanceof [of env contractText response]
  by (auto simp: analyzeContract_def analyzeContract_try_def split: sum.splits)

lemma risksWithIds_array:
  "field payload (js ''risks'') = Some (JArr entries) \<Longrightarrow>
   risksWithIds payload = Inr (map (\<lambda>(index, risk). with_id index risk) (enumerate 0 entries))"
  by (cases payload) (simp_all add: risksWithIds_def)


lemma parse_response_array:
  assumes "JSON_parse env (cleanResponse response) = Inr payload"
      and "field payload (js ''risks'') = Some (JArr entries)"
  shows "parse_response env contractText response =
     Inr \<lparr>risks = map (\<lambda>(index, risk). with_id index risk) (enumerate 0 entries),
          overallScore = field payload (js ''overallScore''),
          totalClauses = field payload (js ''totalClauses''),
          originalText = contractText,
          revisedSections = revisedSections_or_empty payload\<rparr>"
  using assms by (simp add: parse_response_def risksWithIds_array)

lemma digits_value_snoc: "digits_value (ds @ [d]) = 10 * digits_value ds + unat (d - 0x30)"
  by (simp add: digits_value_def)

lemma unat_digit: "n < 10 \<Longrightarrow> unat (0x30 + of_nat n - 0x30 :: code_unit) = n"
  by (simp add: unat_of_nat)

text \<open>The digits that \<open>decimal\<close> prints denote the number printed.\<close>

lemma digits_value_decimal: "digits_value (decimal n) = n"
proof (induction n rule: decimal.induct)
  case (1 n)
  show ?case
  proof (cases "n < 10")
    case True
    then show ?thesis
      using digits_value_snoc [of "[]" "0x30 + of_nat n"] unat_digit [of n]
      by (simp add: digits_value_def)
  next
    case False
    then have "digits_value (decimal n) = 10 * (n div 10) + n mod 10"
      using "1.IH" digits_value_snoc [of "decimal (n div 10)" "0x30 + of_nat (n mod 10)"]
        unat_digit [of "n mod 10"]
      by (subst decimal.simps) simp
    then show ?thesis by simp
  qed
qed



lemma analysis_client_mock:
  "canned \<noteq> [] \<Longrightarrow>
   analysis_client (mock_env canned) contractText tr =
     (Inr canned, tr @ [CreateCompletion (completion_request
        \<lparr>apiKey = js ''gsk_test_key'', dangerouslyAllowBrowser = True\<rparr> contractText)])"
  by (simp add: analysis_client_def getGroqClient_def mock_env_def js_Nil_iff)

lemma analyzeContract_mock:
  assumes "JSON_parse (mock_env []) (cleanResponse canned) = Inr payload"
      and "field payload (js ''risks'') = Some (JArr entries)"
      and "canned \<noteq> []"
  shows "analyzeContract (mock_env canned) contractText tr =
     (Inr \<lparr>risks = map (\<lambda>(index, risk). with_id index risk) (enumerate 0 entries),
           overallScore = field payload (js ''overallScore''),
           totalClauses = field payload (js ''totalClauses''),
           originalText = contractText,
           revisedSections = revisedSections_or_empty payload\<rparr>,
      tr @ [CreateCompletion (mock_request contractText)])"
proof -
  have p: "JSON_parse (mock_env canned) (cleanResponse canned) = Inr payload"
    using assms(1) by (simp add: mock_env_def)
  show ?thesis
    using analyzeContract_answered [OF analysis_client_mock [OF assms(3)]]
      parse_response_array [OF p assms(2)]
    by (simp add: mock_request_def)
qed

lemma trim_Nil: "trim [] = []"
  by (simp add: trim_def)

lemma handleFileUpload_too_short:
  assumes "extractTextFromFile env file tr = (Inr contractText, tr1)"
      and "length (trim contractText) < 100"
  shows "handleFileUpload env file st tr =
     ((upload_started env file st)
        \<lparr>originalContractText := contractText,
         analysisError := Some (js ''Unable to extract sufficient text from the file. Please ensure the file contains readable contract text.''),
         analysisResult := None,
         isAnalyzing := False\<rparr>,
      tr1 @ [ConsoleError (js ''Analysis error:'')
               (Error (js ''Unable to extract sufficient text from the file. Please ensure the file contains readable contract text.''))])"
  using assms by (simp add: handleFileUpload_def upload_failed_def)

lemma handleFileUpload_analyzed:
  assumes "extractTextFromFile env file tr = (Inr contractText, tr1)"
      and "100 \<le> length (trim contractText)"
  shows "handleFileUpload env file st tr =
     (case analyzeContract env contractText tr1 of
        (Inl error, tr2) \<Rightarrow>
          upload_failed env error
            ((upload_started env file st)\<lparr>originalContractText := contractText\<rparr>) tr2
      | (Inr result, tr2) \<Rightarrow>
          ((upload_started env file st)
             \<lparr>originalContractText := contractText,
              analysisResult := Some result,
              isAnalyzing := False\<rparr>,
           tr2))"
proof -
  have "contractText \<noteq> []" using assms(2) by (auto simp: trim_Nil)
  then show ?thesis
    using assms by (simp add: handleFileUpload_def split: prod.split sum.split)
qed

lemma mime_types_differ:
  "js ''application/pdf'' \<noteq> js ''text/plain''"
  "js ''application/pdf'' \<noteq> js ''application/vnd.openxmlformats-officedocument.wordprocessingml.document''"
  "js ''application/vnd.openxmlformats-officedocument.wordprocessingml.document'' \<noteq> js ''text/plain''"
  by (simp_all add: js_def)


section \<open>The claims\<close>

text \<open>
  C2. An extracted text shorter than 100 code units aborts the pipeline before the
  Analysis Client is invoked: \<^verbatim>\<open>handleFileUpload\<close> ends in the error state with the
  insufficient-text message; after the extraction it leaves behind one
  \<^verbatim>\<open>console.error\<close> line, that of its own \<^verbatim>\<open>catch\<close> block, and no request to
  the completion endpoint; and its outcome is the same whatever credential, endpoint
  and \<^verbatim>\<open>JSON.parse\<close> the Analysis Client would have found, as a spy in their place
  would report.
\<close>

theorem short_text_never_analyzed:
  assumes "extractTextFromFile env file tr = (Inr contractText, tr1)"
      and "length contractText < 100"
  shows "handleFileUpload env file st tr =
           ((upload_started env file st)
              \<lparr>originalContractText := contractText,
               analysisError := Some (js ''Unable to extract sufficient text from the file. Please ensure the file contains readable contract text.''),
               analysisResult := None,
               isAnalyzing := False\<rparr>,
            tr1 @ [ConsoleError (js ''Analysis error:'')
                     (Error (js ''Unable to extract sufficient text from the file. Please ensure the file contains readable contract text.''))])
       \<and> network_calls (snd (handleFileUpload env file st tr)) = network_calls tr
       \<and> handleFileUpload
             (env\<lparr>VITE_GROQ_API_KEY := key, completions_create := endpoint, JSON_parse := parse\<rparr>)
             file st tr
           = handleFileUpload env file st tr"
proof -
  let ?env' = "env\<lparr>VITE_GROQ_API_KEY := key, completions_create := endpoint, JSON_parse := parse\<rparr>"
  have short: "length (trim contractText) < 100"
    using length_trim_le [of contractText] assms(2) by simp
  have "network_calls tr1 = network_calls tr"
    using extractTextFromFile_network [of env "file" tr] assms(1) by simp
  moreover have "extractTextFromFile ?env' file tr = extractTextFromFile env file tr"
    by (simp add: extractTextFromFile_def)
  then have "extractTextFromFile ?env' file tr = (Inr contractText, tr1)"
    using assms(1) by simp
  then have "handleFileUpload ?env' file st tr = handleFileUpload env file st tr"
    using handleFileUpload_too_short [OF _ short, of ?env' "file" tr tr1 st]
      handleFileUpload_too_short [OF assms(1) short, of st]
    by (simp add: upload_started_def)
  ultimately show ?thesis
    using handleFileUpload_too_short [OF assms(1) short, of st]
    by (simp add: network_calls_append)
qed

theorem short_text_never_analyzed_witness:
  "extractTextFromFile (mock_env (js ''{\"risks\": []}'')) (mock_file ''text/plain'' ''Payment due within 30 days.'') []
     = (Inr (js ''Payment due within 30 days.''), [ReadAsText (mock_file ''text/plain'' ''Payment due within 30 days.'')])
   \<and> length (js ''Payment due within 30 days.'') = 27
   \<and> analysisError (fst (handleFileUpload (mock_env (js ''{\"risks\": []}''))
         (mock_file ''text/plain'' ''Payment due within 30 days.'') initial_state []))
     = Some (js ''Unable to extract sufficient text from the file. Please ensure the file contains readable contract text.'')
   \<and> analysisResult (fst (handleFileUpload (mock_env (js ''{\"risks\": []}''))
         (mock_file ''text/plain'' ''Payment due within 30 days.'') initial_state [])) = None
   \<and> network_calls (snd (handleFileUpload (mock_env (js ''{\"risks\": []}''))
         (mock_file ''text/plain'' ''Payment due within 30 days.'') initial_state [])) = []"
proof -
  have ex: "extractTextFromFile (mock_env (js ''{\"risks\": []}'')) (mock_file ''text/plain'' ''Payment due within 30 days.'') []
     = (Inr (js ''Payment due within 30 days.''), [ReadAsText (mock_file ''text/plain'' ''Payment due within 30 days.'')])"
    by code_simp
  have len: "length (js ''Payment due within 30 days.'') = 27"
    by (simp add: js_def)
  have short: "length (js ''Payment due within 30 days.'') < 100"
    by (simp add: js_def)
  show ?thesis
    using ex len short_text_never_analyzed [OF ex short, of initial_state]
    by simp
qed



text \<open>
  C4. When the response text, fences stripped, is not JSON, \<^verbatim>\<open>JSON.parse\<close> throws
  its \<^verbatim>\<open>SyntaxError\<close>; \<^verbatim>\<open>analyzeContract\<close> logs it and throws it again, and
  \<^verbatim>\<open>handleFileUpload\<close> catches it: the message is stored as the analysis error, the
  result is cleared and the handler returns.
\<close>

theorem malformed_response_reported:
  assumes "extractTextFromFile env file tr = (Inr contractText, tr1)"
      and "100 \<le> length (trim contractText)"
      and "analysis_client env contractText tr1 = (Inr response, tr2)"
      and "JSON_parse env (cleanResponse response) = Inl syntax_error"
  shows "analyzeContract env contractText tr1 =
           (Inl (SyntaxError syntax_error),
            tr2 @ [ConsoleError (js ''Error analyzing contract:'') (SyntaxError syntax_error)])
       \<and> handleFileUpload env file st tr =
           ((upload_started env file st)
              \<lparr>originalContractText := contractText,
               analysisError := Some syntax_error,
               analysisResult := None,
               isAnalyzing := False\<rparr>,
            tr2 @ [ConsoleError (js ''Error analyzing contract:'') (SyntaxError syntax_error),
                   ConsoleError (js ''Analysis error:'') (SyntaxError syntax_error)])"
proof -
  have a: "analyzeContract env contractText tr1 =
      (Inl (SyntaxError syntax_error),
       tr2 @ [ConsoleError (js ''Error analyzing contract:'') (SyntaxError syntax_error)])"
    using analyzeContract_answered [OF assms(3)] assms(4) by (simp add: parse_response_def)
  show ?thesis
    using a handleFileUpload_analyzed [OF assms(1,2), of st]
    by (simp add: upload_failed_def)
qed

theorem malformed_response_reported_witness:
  "json_parse (js ''{\"risks\": [], \"overallScore\": 70,}'') = None
   \<and> json_parse (js ''{\"risks\": [{\"type\": \"high\"'') = None
   \<and> fst (analyzeContract (mock_env (js ''{\"risks\": [], \"overallScore\": 70,}'')) (js mock_contract)
          [ReadAsText (mock_file ''text/plain'' mock_contract)])
     = Inl (SyntaxError (js ''Unexpected token in JSON''))
   \<and> analysisError (fst (handleFileUpload (mock_env (js ''{\"risks\": [], \"overallScore\": 70,}''))
          (mock_file ''text/plain'' mock_contract) initial_state []))
     = Some (js ''Unexpected token in JSON'')
   \<and> analysisResult (fst (handleFileUpload (mock_env (js ''{\"risks\": [], \"overallScore\": 70,}''))
          (mock_file ''text/plain'' mock_contract) initial_state [])) = None
   \<and> isAnalyzing (fst (handleFileUpload (mock_env (js ''{\"risks\": [], \"overallScore\": 70,}''))
          (mock_file ''text/plain'' mock_contract) initial_state [])) = False"
proof -
  let ?R = "js ''{\"risks\": [], \"overallScore\": 70,}''"
  let ?F = "mock_file ''text/plain'' mock_contract"
  have bad: "json_parse ?R = None" "json_parse (js ''{\"risks\": [{\"type\": \"high\"'') = None"
    by code_simp+
  have ex: "extractTextFromFile (mock_env ?R) ?F [] = (Inr (js mock_contract), [ReadAsText ?F])"
    by code_simp
  have len: "100 \<le> length (trim (js mock_contract))"
    by code_simp
  have client: "analysis_client (mock_env ?R) (js mock_contract) [ReadAsText ?F]
      = (Inr ?R, [ReadAsText ?F] @ [CreateCompletion (completion_request
           \<lparr>apiKey = js ''gsk_test_key'', dangerouslyAllowBrowser = True\<rparr> (js mock_contract))])"
    by (rule analysis_client_mock) (simp add: js_Nil_iff)
  have "JSON_parse (mock_env []) (cleanResponse ?R) = Inl (js ''Unexpected token in JSON'')"
    by code_simp
  then have thrown: "JSON_parse (mock_env ?R) (cleanResponse ?R) = Inl (js ''Unexpected token in JSON'')"
    by (simp add: mock_env_def)
  show ?thesis
    using bad malformed_response_reported [OF ex len client thrown, of initial_state]
    by simp
qed

text \<open>
  C5. Without a credential (the variable is undefined, or empty, which \<^verbatim>\<open>!apiKey\<close>
  treats alike) \<^verbatim>\<open>analyzeContract\<close> fails with the configuration error, for every
  contract text and so for every prompt; it sends no request to the completion
  endpoint, and its outcome does not depend on what the endpoint would answer.
\<close>

theorem missing_key_no_request:
  assumes "VITE_GROQ_API_KEY env = None \<or> VITE_GROQ_API_KEY env = Some []"
  shows "analyzeContract env contractText tr =
           (Inl (Error (js ''Groq API key not found. Please add VITE_GROQ_API_KEY to your .env file.'')),
            tr @ [ConsoleError (js ''Error analyzing contract:'')
                    (Error (js ''Groq API key not found. Please add VITE_GROQ_API_KEY to your .env file.''))])
       \<and> network_calls (snd (analyzeContract env contractText tr)) = network_calls tr
       \<and> analyzeContract (env\<lparr>completions_create := endpoint\<rparr>) contractText tr
           = analyzeContract env contractText tr"
proof -
  have "getGroqClient env =
      Inl (Error (js ''Groq API key not found. Please add VITE_GROQ_API_KEY to your .env file.''))"
    using assms by (auto simp: getGroqClient_def)
  moreover have "getGroqClient (env\<lparr>completions_create := endpoint\<rparr>) = getGroqClient env"
    by (simp add: getGroqClient_def)
  ultimately show ?thesis
    by (simp add: analyzeContract_def analyzeContract_try_def analysis_client_def
        network_calls_append)
qed

theorem missing_key_no_request_witness:
  "VITE_GROQ_API_KEY ((mock_env (js ''{\"risks\": []}''))\<lparr>VITE_GROQ_API_KEY := None\<rparr>) = None
   \<and> fst (analyzeContract ((mock_env (js ''{\"risks\": []}''))\<lparr>VITE_GROQ_API_KEY := None\<rparr>) (js mock_contract) [])
     = Inl (Error (js ''Groq API key not found. Please add VITE_GROQ_API_KEY to your .env file.''))
   \<and> network_calls (snd (analyzeContract ((mock_env (js ''{\"risks\": []}''))\<lparr>VITE_GROQ_API_KEY := None\<rparr>) (js mock_contract) [])) = []"
proof -
  have k: "VITE_GROQ_API_KEY ((mock_env (js ''{\"risks\": []}''))\<lparr>VITE_GROQ_API_KEY := None\<rparr>) = None"
    by simp
  then have "VITE_GROQ_API_KEY ((mock_env (js ''{\"risks\": []}''))\<lparr>VITE_GROQ_API_KEY := None\<rparr>) = None
      \<or> VITE_GROQ_API_KEY ((mock_env (js ''{\"risks\": []}''))\<lparr>VITE_GROQ_API_KEY := None\<rparr>) = Some []"
    by (rule disjI1)
  from missing_key_no_request [OF this, of "js mock_contract" "[]"] show ?thesis
    using k by simp
qed

text \<open>
  C6. \<^verbatim>\<open>extractTextFromFile\<close> looks at the declared MIME type only:
  \<open>text/plain\<close> is what the \<^verbatim>\<open>FileReader\<close> reads, unchanged; the DOCX type is
  what the library extracts, and the format error when the library throws; the PDF
  type fails with the not-supported message and touches no reader; every other
  type fails with the unsupported-type message.
\<close>

theorem extractor_dispatch:
  "(file_type file = js ''text/plain'' \<longrightarrow>
      extractTextFromFile env file tr =
        (case FileReader_readAsText env file of
           Some result \<Rightarrow> Inr result
         | None \<Rightarrow> Inl (Error (js ''Error reading text file'')),
         tr @ [ReadAsText file]))
 \<and> (file_type file = js ''application/vnd.openxmlformats-officedocument.wordprocessingml.document'' \<longrightarrow>
      extractTextFromFile env file tr =
        (case mammoth_extractRawText env file of
           Inr v \<Rightarrow> Inr v
         | Inl error \<Rightarrow> Inl (Error (js ''Error reading DOCX file. Please ensure the file is not corrupted.'')),
         tr @ [ExtractRawText file]))
 \<and> (file_type file = js ''application/pdf'' \<longrightarrow>
      extractTextFromFile env file tr =
        (Inl (Error (js ''PDF files are not yet supported. Please convert your contract to a DOCX file or copy/paste the text into a new Word document and upload that instead.'')),
         tr))
 \<and> (file_type file \<noteq> js ''text/plain''
      \<and> file_type file \<noteq> js ''application/vnd.openxmlformats-officedocument.wordprocessingml.document''
      \<and> file_type file \<noteq> js ''application/pdf'' \<longrightarrow>
      extractTextFromFile env file tr =
        (Inl (Error (js ''Unsupported file type. Please upload a DOCX or TXT file.'')), tr))"
  using mime_types_differ
  by (simp add: extractTextFromFile_def split: sum.split option.split)

theorem extractor_dispatch_witness:
  "extractTextFromFile (mock_env []) (mock_file ''text/plain'' ''%PDF-1.4 Payment due'') []
     = (Inr (js ''%PDF-1.4 Payment due''), [ReadAsText (mock_file ''text/plain'' ''%PDF-1.4 Payment due'')])
   \<and> extractTextFromFile (mock_env [])
        (mock_file ''application/vnd.openxmlformats-officedocument.wordprocessingml.document'' ''Payment due'') []
     = (Inl (Error (js ''Error reading DOCX file. Please ensure the file is not corrupted.'')),
        [ExtractRawText (mock_file ''application/vnd.openxmlformats-officedocument.wordprocessingml.document'' ''Payment due'')])
   \<and> extractTextFromFile (mock_env []) (mock_file ''application/pdf'' ''Payment due'') []
     = (Inl (Error (js ''PDF files are not yet supported. Please convert your contract to a DOCX file or copy/paste the text into a new Word document and upload that instead.'')),
        [])
   \<and> extractTextFromFile (mock_env []) (mock_file ''image/png'' ''Payment due'') []
     = (Inl (Error (js ''Unsupported file type. Please upload a DOCX or TXT file.'')), [])"
proof -
  have types:
    "file_type (mock_file ''text/plain'' ''%PDF-1.4 Payment due'') = js ''text/plain''"
    "file_type (mock_file ''application/vnd.openxmlformats-officedocument.wordprocessingml.document'' ''Payment due'')
       = js ''application/vnd.openxmlformats-officedocument.wordprocessingml.document''"
    "file_type (mock_file ''application/pdf'' ''Payment due'') = js ''application/pdf''"
    "file_type (mock_file ''image/png'' ''Payment due'') \<noteq> js ''text/plain''
     \<and> file_type (mock_file ''image/png'' ''Payment due'')
         \<noteq> js ''application/vnd.openxmlformats-officedocument.wordprocessingml.document''
     \<and> file_type (mock_file ''image/png'' ''Payment due'') \<noteq> js ''application/pdf''"
    by (simp_all add: mock_file_def js_def)
  have read: "FileReader_readAsText (mock_env []) (mock_file ''text/plain'' ''%PDF-1.4 Payment due'')
      = Some (js ''%PDF-1.4 Payment due'')"
    by code_simp
  have lib: "mammoth_extractRawText (mock_env [])
      (mock_file ''application/vnd.openxmlformats-officedocument.wordprocessingml.document'' ''Payment due'')
      = Inl (Error (js ''Corrupted zip''))"
    by (simp add: mock_env_def)
  show ?thesis
    using types read lib
      extractor_dispatch [of "mock_file ''text/plain'' ''%PDF-1.4 Payment due''" "mock_env []" "[]"]
      extractor_dispatch [of "mock_file ''application/vnd.openxmlformats-officedocument.wordprocessingml.document'' ''Payment due''" "mock_env []" "[]"]
      extractor_dispatch [of "mock_file ''application/pdf'' ''Payment due''" "mock_env []" "[]"]
      extractor_dispatch [of "mock_file ''image/png'' ''Payment due''" "mock_env []" "[]"]
    by simp
qed

text \<open>
  C7, as stated, fails: a payload without \<open>revisedSections\<close> that has no
  \<open>risks\<close> either makes \<^verbatim>\<open>analysisData.risks.map\<close> throw before
  \<open>revisedSections\<close> is read.
\<close>

theorem revisedSections_absent_counterexample:
  "JSON_parse (mock_env []) (cleanResponse (js ''{\"overallScore\": 70, \"totalClauses\": 12}''))
     = Inr (JObj [(js ''overallScore'', JNum 70), (js ''totalClauses'', JNum 12)])
   \<and> field (JObj [(js ''overallScore'', JNum 70), (js ''totalClauses'', JNum 12)]) (js ''revisedSections'') = None
   \<and> fst (analyzeContract (mock_env (js ''{\"overallScore\": 70, \"totalClauses\": 12}'')) (js mock_contract) [])
     = Inl (TypeError (Read_of_undefined (js ''map'')))"
  by code_simp

text \<open>
  C7, amended. For a payload whose \<open>risks\<close> is an array, normalization succeeds;
  the result has the empty sequence as \<open>revisedSections\<close> when the payload has no
  such key, and the payload's array, as it is, when the key holds one.
\<close>

theorem revisedSections_default:
  assumes "analysis_client env contractText tr = (Inr response, tr')"
      and "JSON_parse env (cleanResponse response) = Inr payload"
      and "field payload (js ''risks'') = Some (JArr entries)"
  shows "\<exists>result. analyzeContract env contractText tr = (Inr result, tr')
          \<and> (field payload (js ''revisedSections'') = None \<longrightarrow> revisedSections result = JArr [])
          \<and> (\<forall>sections. field payload (js ''revisedSections'') = Some (JArr sections) \<longrightarrow>
                revisedSections result = JArr sections)"
  using analyzeContract_answered [OF assms(1)] parse_response_array [OF assms(2,3)]
  by (simp add: revisedSections_or_empty_def)

theorem revisedSections_default_witness:
  "(\<exists>result. fst (analyzeContract (mock_env (js ''{\"risks\": [], \"overallScore\": 70}'')) (js mock_contract) [])
       = Inr result \<and> revisedSections result = JArr [])
   \<and> (\<exists>result. fst (analyzeContract
         (mock_env (js ''{\"risks\": [], \"revisedSections\": [{\"section\": \"2\"}, {\"section\": \"1\"}]}''))
         (js mock_contract) []) = Inr result
       \<and> revisedSections result
          = JArr [JObj [(js ''section'', JStr (js ''2''))], JObj [(js ''section'', JStr (js ''1''))]])"
proof -
  let ?R1 = "js ''{\"risks\": [], \"overallScore\": 70}''"
  let ?P1 = "JObj [(js ''risks'', JArr []), (js ''overallScore'', JNum 70)]"
  let ?R2 = "js ''{\"risks\": [], \"revisedSections\": [{\"section\": \"2\"}, {\"section\": \"1\"}]}''"
  let ?S2 = "[JObj [(js ''section'', JStr (js ''2''))], JObj [(js ''section'', JStr (js ''1''))]]"
  let ?P2 = "JObj [(js ''risks'', JArr []), (js ''revisedSections'', JArr ?S2)]"
  have p1: "JSON_parse (mock_env ?R1) (cleanResponse ?R1) = Inr ?P1"
    by code_simp
  have p2: "JSON_parse (mock_env ?R2) (cleanResponse ?R2) = Inr ?P2"
    by code_simp
  have f1: "field ?P1 (js ''risks'') = Some (JArr [])" "field ?P1 (js ''revisedSections'') = None"
    by (simp_all add: js_def)
  have f2: "field ?P2 (js ''risks'') = Some (JArr [])"
    "field ?P2 (js ''revisedSections'') = Some (JArr ?S2)"
    by (simp_all add: js_def)
  have ne: "?R1 \<noteq> []" "?R2 \<noteq> []" by (simp_all add: js_Nil_iff)
  from revisedSections_default [OF analysis_client_mock [OF ne(1)] p1 f1(1), of "js mock_contract" "[]"]
  have 1: "\<exists>result. fst (analyzeContract (mock_env ?R1) (js mock_contract) []) = Inr result
      \<and> revisedSections result = JArr []"
    using f1(2) by auto
  from revisedSections_default [OF analysis_client_mock [OF ne(2)] p2 f2(1), of "js mock_contract" "[]"]
  have 2: "\<exists>result. fst (analyzeContract (mock_env ?R2) (js mock_contract) []) = Inr result
      \<and> revisedSections result = JArr ?S2"
    using f2(2) by auto
  from 1 2 show ?thesis by blast
qed






text \<open>
  C10. The minimum-length guard reads the trimmed text and compares with a strict
  less-than: a text whose trimmed length is below 100 aborts the pipeline, whatever
  its raw length, and a text whose trimmed length is 100 or more goes on to
  \<^verbatim>\<open>analyzeContract\<close>, whose outcome decides the final state.
\<close>

theorem minimum_length_guard:
  assumes "extractTextFromFile env file tr = (Inr contractText, tr1)"
  shows "(length (trim contractText) < 100 \<longrightarrow>
           handleFileUpload env file st tr =
             ((upload_started env file st)
                \<lparr>originalContractText := contractText,
                 analysisError := Some (js ''Unable to extract sufficient text from the file. Please ensure the file contains readable contract text.''),
                 analysisResult := None,
                 isAnalyzing := False\<rparr>,
              tr1 @ [ConsoleError (js ''Analysis error:'')
                       (Error (js ''Unable to extract sufficient text from the file. Please ensure the file contains readable contract text.''))]))
       \<and> (100 \<le> length (trim contractText) \<longrightarrow>
           handleFileUpload env file st tr =
             (case analyzeContract env contractText tr1 of
                (Inl error, tr2) \<Rightarrow>
                  upload_failed env error
                    ((upload_started env file st)\<lparr>originalContractText := contractText\<rparr>) tr2
              | (Inr result, tr2) \<Rightarrow>
                  ((upload_started env file st)
                     \<lparr>originalContractText := contractText,
                      analysisResult := Some result,
                      isAnalyzing := False\<rparr>,
                   tr2)))"
  using handleFileUpload_too_short [OF assms] handleFileUpload_analyzed [OF assms]
  by blast

theorem minimum_length_guard_witness:
  "length (trim (js (replicate 100 CHR ''a''))) = 100
   \<and> analysisError (fst (handleFileUpload (mock_env (js ''{\"risks\": []}''))
         (mock_file ''text/plain'' (replicate 100 CHR ''a'')) initial_state [])) = None
   \<and> network_calls (snd (handleFileUpload (mock_env (js ''{\"risks\": []}''))
         (mock_file ''text/plain'' (replicate 100 CHR ''a'')) initial_state []))
     = [mock_request (js (replicate 100 CHR ''a''))]
   \<and> length (js (replicate 99 CHR ''a'' @ replicate 21 CHR '' '')) = 120
   \<and> length (trim (js (replicate 99 CHR ''a'' @ replicate 21 CHR '' ''))) = 99
   \<and> analysisError (fst (handleFileUpload (mock_env (js ''{\"risks\": []}''))
         (mock_file ''text/plain'' (replicate 99 CHR ''a'' @ replicate 21 CHR '' '')) initial_state []))
     = Some (js ''Unable to extract sufficient text from the file. Please ensure the file contains readable contract text.'')
   \<and> network_calls (snd (handleFileUpload (mock_env (js ''{\"risks\": []}''))
         (mock_file ''text/plain'' (replicate 99 CHR ''a'' @ replicate 21 CHR '' '')) initial_state [])) = []"
proof -
  let ?E = "mock_env (js ''{\"risks\": []}'')"
  let ?A = "replicate 100 CHR ''a''"
  let ?B = "replicate 99 CHR ''a'' @ replicate 21 CHR '' ''"
  have exA: "extractTextFromFile ?E (mock_file ''text/plain'' ?A) []
      = (Inr (js ?A), [ReadAsText (mock_file ''text/plain'' ?A)])"
    by code_simp
  have exB: "extractTextFromFile ?E (mock_file ''text/plain'' ?B) []
      = (Inr (js ?B), [ReadAsText (mock_file ''text/plain'' ?B)])"
    by code_simp
  have lenA: "length (trim (js ?A)) = 100"
    by code_simp
  have lenB: "length (js ?B) = 120" "length (trim (js ?B)) = 99"
    by code_simp+
  have parsed: "JSON_parse (mock_env []) (cleanResponse (js ''{\"risks\": []}''))
      = Inr (JObj [(js ''risks'', JArr [])])"
    by code_simp
  have run: "analyzeContract ?E (js ?A) [ReadAsText (mock_file ''text/plain'' ?A)]
      = (Inr \<lparr>risks = [], overallScore = None, totalClauses = None,
              originalText = js ?A, revisedSections = JArr []\<rparr>,
         [ReadAsText (mock_file ''text/plain'' ?A), CreateCompletion (mock_request (js ?A))])"
    using analyzeContract_mock [OF parsed, of "[]" "js ?A" "[ReadAsText (mock_file ''text/plain'' ?A)]"]
    by (simp add: js_Nil_iff revisedSections_or_empty_def js_def enumerate_eq_zip)
  have A: "handleFileUpload ?E (mock_file ''text/plain'' ?A) initial_state [] =
      ((upload_started ?E (mock_file ''text/plain'' ?A) initial_state)
         \<lparr>originalContractText := js ?A,
          analysisResult := Some \<lparr>risks = [], overallScore = None, totalClauses = None,
              originalText = js ?A, revisedSections = JArr []\<rparr>,
          isAnalyzing := False\<rparr>,
       [ReadAsText (mock_file ''text/plain'' ?A), CreateCompletion (mock_request (js ?A))])"
    using minimum_length_guard [OF exA, of initial_state] lenA run by simp
  have B: "handleFileUpload ?E (mock_file ''text/plain'' ?B) initial_state [] =
      ((upload_started ?E (mock_file ''text/plain'' ?B) initial_state)
         \<lparr>originalContractText := js ?B,
          analysisError := Some (js ''Unable to extract sufficient text from the file. Please ensure the file contains readable contract text.''),
          analysisResult := None,
          isAnalyzing := False\<rparr>,
       [ReadAsText (mock_file ''text/plain'' ?B)] @ [ConsoleError (js ''Analysis error:'')
          (Error (js ''Unable to extract sufficient text from the file. Please ensure the file contains readable contract text.''))])"
    using minimum_length_guard [OF exB, of initial_state] lenB by simp
  show ?thesis
    unfolding A B using lenA lenB by (simp add: upload_started_def)
qed

section \<open>The end-to-end scenario\<close>

text \<open>
  A text file holding the payment sentence twice, a mock Analysis Client that returns
  one \<open>medium\<close> risk in the category \<open>Payment Terms\<close> and the score 70: the
  handler ends with a result that has exactly one risk, with the identifier
  \<open>risk-1\<close> and that category, and the score 70.
\<close>

lemma end_to_end_scenario:
  "map_option
     (\<lambda>result. (map (\<lambda>risk. (map_of risk (js ''id''), map_of risk (js ''category''))) (risks result),
                overallScore result, originalText result))
     (analysisResult (fst (handleFileUpload
        (mock_env (js ''{\"risks\": [{\"type\": \"medium\", \"category\": \"Payment Terms\"}], \"overallScore\": 70}''))
        (mock_file ''text/plain'' mock_contract) initial_state [])))
   = Some ([(Some (JStr (js ''risk-1'')), Some (JStr (js ''Payment Terms'')))],
           Some (JNum 70), js mock_contract)"
  by code_simp

end
